theory Spec2Isabelle
  imports Main "HOL-Library.Sublist" "HOL-Library.Multiset"
begin

section \<open>Data model (types.ts)\<close>

text \<open>
  \<^verbatim>\<open>DreamEntry\<close> of the source. The identifier field is called \<open>dream_id\<close> here because
  \<open>id\<close> is the identity function of HOL. Optional fields are \<open>option\<close>s. The optional
  \<^verbatim>\<open>audioBlob\<close> field is never written by any code of the repository and is left out.
  \<^verbatim>\<open>timestamp\<close> holds a reading of \<^verbatim>\<open>Date.now()\<close>, a whole number of milliseconds.
\<close>

record DreamEntry =
  dream_id :: string
  timestamp :: int
  audioBase64 :: "string option"
  transcription :: string
  tags :: "string list"
  mood :: string
  lucidityScore :: int
  isProcessing :: bool
  generatedImage :: "string option"

text \<open>\<^verbatim>\<open>DreamAnalysisResult\<close>: the four fields the analysis fills in.\<close>

record DreamAnalysisResult =
  res_transcription :: string
  res_tags :: "string list"
  res_mood :: string
  res_lucidityScore :: int

section \<open>DreamCard: tag handlers\<close>

text \<open>
  A handler of the card either hands one patched entry to the \<^verbatim>\<open>onUpdate\<close> callback or
  does nothing. The model returns \<open>Some\<close> of the entry handed over, and \<open>None\<close> when the
  callback is not invoked. The argument \<open>onUpdate\<close> says whether the optional
  \<^verbatim>\<open>onUpdate\<close> property is present. The argument \<open>trim\<close> stands for
  \<^verbatim>\<open>String.prototype.trim\<close>, a function of the platform (it strips the white space and
  the line terminators of Unicode at both ends).

  \<^verbatim>\<open>if (newTag.trim() && onUpdate) onUpdate({...dream, tags: [...dream.tags, newTag.trim()]})\<close>
\<close>

definition addTag ::
  "(string \<Rightarrow> string) \<Rightarrow> bool \<Rightarrow> string \<Rightarrow> DreamEntry \<Rightarrow> DreamEntry option" where
  "addTag trim onUpdate newTag dream =
     (if trim newTag \<noteq> [] \<and> onUpdate
      then Some (dream\<lparr>tags := tags dream @ [trim newTag]\<rparr>)
      else None)"

text \<open>
  \<^verbatim>\<open>if (onUpdate) onUpdate({...dream, tags: dream.tags.filter(t => t !== tagToRemove)})\<close>
\<close>

definition removeTag :: "bool \<Rightarrow> string \<Rightarrow> DreamEntry \<Rightarrow> DreamEntry option" where
  "removeTag onUpdate tagToRemove dream =
     (if onUpdate
      then Some (dream\<lparr>tags := filter (\<lambda>t. t \<noteq> tagToRemove) (tags dream)\<rparr>)
      else None)"

section \<open>App: the entry store\<close>

text \<open>
  The store is the React state \<^verbatim>\<open>dreams\<close>, a list with the newest entry first. Each
  handler passes an updater function to \<^verbatim>\<open>setDreams\<close>; the updaters are modelled as
  functions from the previous list to the next one.

  \<^verbatim>\<open>setDreams(prev => prev.map(d => d.id === updatedDream.id ? updatedDream : d))\<close>
\<close>

definition handleUpdateDream :: "DreamEntry \<Rightarrow> DreamEntry list \<Rightarrow> DreamEntry list" where
  "handleUpdateDream updatedDream prev =
     map (\<lambda>d. if dream_id d = dream_id updatedDream then updatedDream else d) prev"

section \<open>App: filtering and grouping (groupedDreams)\<close>

text \<open>\<^verbatim>\<open>s.includes(q)\<close>: \<open>q\<close> occurs in \<open>s\<close> as a contiguous run, searched from the left.\<close>

fun str_includes :: "string \<Rightarrow> string \<Rightarrow> bool" where
  "str_includes [] q = (q = [])"
| "str_includes (c # s) q = (prefix q (c # s) \<or> str_includes s q)"

text \<open>\<^verbatim>\<open>xs.join(sep)\<close>\<close>

fun join :: "string \<Rightarrow> string list \<Rightarrow> string" where
  "join sep [] = []"
| "join sep [x] = x"
| "join sep (x # y # ys) = x @ sep @ join sep (y # ys)"

text \<open>
  The filter step. Two calls leave the repository and are arguments of the model:
  \<open>toLowerCase\<close> stands for \<^verbatim>\<open>String.prototype.toLowerCase\<close>, which follows the case
  mappings of Unicode, and \<open>fmt\<close> stands for
  \<^verbatim>\<open>new Date(t).toLocaleDateString(undefined, {weekday: 'long', month: 'long', day: 'numeric'})\<close>,
  whose result depends on the locale and the time zone of the browser.
  \<^verbatim>\<open>(d.transcription || "")\<close> is the transcription itself unless it is empty.
  \<open>matchesQuery\<close> is the callback of \<^verbatim>\<open>dreams.filter\<close>; its argument \<open>query\<close> is the
  query already in lower case.
\<close>

definition matchesQuery ::
  "(string \<Rightarrow> string) \<Rightarrow> (int \<Rightarrow> string) \<Rightarrow> string \<Rightarrow> DreamEntry \<Rightarrow> bool" where
  "matchesQuery toLowerCase fmt query d =
     (if query = [] then True
      else
        let dateStr = toLowerCase (fmt (timestamp d));
            tagsStr = toLowerCase (join '' '' (tags d));
            text = toLowerCase (if transcription d \<noteq> [] then transcription d else [])
        in str_includes text query \<or> str_includes tagsStr query \<or> str_includes dateStr query)"

definition filterDreams ::
  "(string \<Rightarrow> string) \<Rightarrow> (int \<Rightarrow> string) \<Rightarrow> string \<Rightarrow> DreamEntry list \<Rightarrow> DreamEntry list" where
  "filterDreams toLowerCase fmt searchQuery ds =
     (let query = toLowerCase searchQuery in filter (matchesQuery toLowerCase fmt query) ds)"

text \<open>
  The grouping step is a \<^verbatim>\<open>reduce\<close> over the filtered list with an accumulator of
  groups. \<^verbatim>\<open>acc.find(g => g.date === dateKey)\<close> yields the first group with that label;
  \<^verbatim>\<open>existingGroup.dreams.push(dream)\<close> then appends to that group in place, which
  \<open>pushToGroup\<close> models by rebuilding the accumulator with the first group of that label
  extended. Otherwise a new one-element group is pushed at the end.
\<close>

record DreamGroup =
  date :: string
  dreams :: "DreamEntry list"

fun pushToGroup :: "string \<Rightarrow> DreamEntry \<Rightarrow> DreamGroup list \<Rightarrow> DreamGroup list" where
  "pushToGroup dateKey dream [] = []"
| "pushToGroup dateKey dream (g # gs) =
     (if date g = dateKey then g\<lparr>dreams := dreams g @ [dream]\<rparr> # gs
      else g # pushToGroup dateKey dream gs)"

definition groupStep :: "(int \<Rightarrow> string) \<Rightarrow> DreamGroup list \<Rightarrow> DreamEntry \<Rightarrow> DreamGroup list" where
  "groupStep fmt acc dream =
     (let dateKey = fmt (timestamp dream) in
      case find (\<lambda>g. date g = dateKey) acc of
        Some existingGroup \<Rightarrow> pushToGroup dateKey dream acc
      | None \<Rightarrow> acc @ [\<lparr>date = dateKey, dreams = [dream]\<rparr>])"

definition groupDreams :: "(int \<Rightarrow> string) \<Rightarrow> DreamEntry list \<Rightarrow> DreamGroup list" where
  "groupDreams fmt filtered = foldl (groupStep fmt) [] filtered"

definition groupedDreams ::
  "(string \<Rightarrow> string) \<Rightarrow> (int \<Rightarrow> string) \<Rightarrow> string \<Rightarrow> DreamEntry list \<Rightarrow> DreamGroup list" where
  "groupedDreams toLowerCase fmt searchQuery ds =
     groupDreams fmt (filterDreams toLowerCase fmt searchQuery ds)"

section \<open>geminiService: analyzeDreamAudio\<close>

text \<open>
  The outcome of a call that may throw (for an asynchronous call: a promise that may
  reject): the value returned, or \<open>Thrown\<close>.
\<close>

datatype 'a completion = Returned 'a | Thrown

text \<open>
  \<^verbatim>\<open>b64.replace(/^data:audio\/\w+;base64,/, "")\<close>: a leading \<^verbatim>\<open>data:audio/\<close>, one or more
  word characters and \<^verbatim>\<open>;base64,\<close> are removed. The semicolon is not a word character,
  so the greedy run of word characters is the only one that can be followed by the
  suffix.
\<close>

definition isWordChar :: "char \<Rightarrow> bool" where
  "isWordChar c =
     (let n = (of_char c :: nat) in
      (48 \<le> n \<and> n \<le> 57) \<or> (65 \<le> n \<and> n \<le> 90) \<or> (97 \<le> n \<and> n \<le> 122) \<or> n = 95)"

definition cleanBase64 :: "string \<Rightarrow> string" where
  "cleanBase64 b64 =
     (if prefix ''data:audio/'' b64 then
        let rest = drop (length ''data:audio/'') b64;
            word = takeWhile isWordChar rest;
            rest' = dropWhile isWordChar rest
        in if word \<noteq> [] \<and> prefix '';base64,'' rest' then drop (length '';base64,'') rest'
           else b64
      else b64)"

text \<open>The value returned from the \<^verbatim>\<open>catch\<close> block.\<close>

definition fallbackAnalysis :: DreamAnalysisResult where
  "fallbackAnalysis =
     \<lparr>res_transcription = ''Analysis failed. Please try again later.'',
      res_tags = [''Error''], res_mood = ''Unknown'', res_lucidityScore = 0\<rparr>"

text \<open>
  The body of the \<^verbatim>\<open>try\<close> block. The two calls that leave the repository are
  arguments: \<open>generateContent\<close> stands for the awaited request
  \<^verbatim>\<open>ai.models.generateContent\<close>, given the MIME type and the cleaned audio data (the
  model name, the prompt and the response schema are constants of the request) and
  yielding \<^verbatim>\<open>response.text\<close>, which may be undefined, unless the request fails;
  \<open>JSON_parse\<close> stands for \<^verbatim>\<open>JSON.parse(text) as DreamAnalysisResult\<close>, which throws on
  text that is not JSON. \<^verbatim>\<open>if (!text) throw\<close> fires on undefined and on the empty
  string.
\<close>

definition analyzeDreamAudio_try ::
  "(string \<times> string \<Rightarrow> string option completion) \<Rightarrow> (string \<Rightarrow> DreamAnalysisResult completion)
    \<Rightarrow> string \<Rightarrow> string \<Rightarrow> DreamAnalysisResult completion" where
  "analyzeDreamAudio_try generateContent JSON_parse audioB64 mimeType =
     (case generateContent (mimeType, cleanBase64 audioB64) of
        Thrown \<Rightarrow> Thrown
      | Returned text \<Rightarrow>
          (case text of
             None \<Rightarrow> Thrown
           | Some t \<Rightarrow> if t = [] then Thrown else JSON_parse t))"

definition analyzeDreamAudio ::
  "(string \<times> string \<Rightarrow> string option completion) \<Rightarrow> (string \<Rightarrow> DreamAnalysisResult completion)
    \<Rightarrow> string \<Rightarrow> string \<Rightarrow> DreamAnalysisResult completion" where
  "analyzeDreamAudio generateContent JSON_parse audioB64 mimeType =
     (case analyzeDreamAudio_try generateContent JSON_parse audioB64 mimeType of
        Returned result \<Rightarrow> Returned result
      | Thrown \<Rightarrow> Returned fallbackAnalysis)"

section \<open>App: state, persistence and the recording handler\<close>

text \<open>
  \<^verbatim>\<open>Date.now().toString()\<close>: the decimal numeral of a whole number (the notation of
  JavaScript for whole numbers of fewer than 22 digits, which clock readings are).
\<close>

definition digitChar :: "nat \<Rightarrow> char" where
  "digitChar d = ''0123456789'' ! d"

fun digits :: "nat \<Rightarrow> string" where
  "digits n = (if n < 10 then [digitChar n] else digits (n div 10) @ [digitChar (n mod 10)])"

definition toString :: "int \<Rightarrow> string" where
  "toString i = (if i < 0 then CHR ''-'' # digits (nat (- i)) else digits (nat i))"

text \<open>
  The state of the \<^verbatim>\<open>App\<close> component that the handlers below touch, together with
  what surrounds it: \<open>st_dreams\<close>, \<open>st_isProcessing\<close> and \<open>st_view\<close> are the committed
  values of the \<^verbatim>\<open>useState\<close> cells; \<open>localStorage\<close> is the browser's storage, a map from
  keys to texts; \<open>st_savePending\<close> says that a render with a new \<^verbatim>\<open>dreams\<close> array has been
  committed and that its save effect has not run yet (React runs the function given to
  \<^verbatim>\<open>useEffect\<close> after the commit, not inside the state update); \<open>st_crashed\<close> says that
  an error which nothing catches has left an effect or a render, after which React
  unmounts the component and no handler runs any more.
\<close>

datatype AppView = Home | ListView | Interpretation

record AppState =
  st_dreams :: "DreamEntry list"
  st_isProcessing :: bool
  st_view :: AppView
  localStorage :: "string \<Rightarrow> string option"
  st_savePending :: bool
  st_crashed :: bool

text \<open>
  \<^verbatim>\<open>localStorage.setItem(key, value)\<close> either stores the value or throws (the quota of the
  origin is exceeded) and leaves the storage as it was. Which of the two happens is
  decided by the browser; \<open>accepts\<close> stands for that decision.
\<close>

definition setItem ::
  "((string \<Rightarrow> string option) \<Rightarrow> string \<Rightarrow> string \<Rightarrow> bool) \<Rightarrow> string \<Rightarrow> string
    \<Rightarrow> (string \<Rightarrow> string option) \<Rightarrow> (string \<Rightarrow> string option) completion" where
  "setItem accepts key val ls =
     (if accepts ls key val then Returned (ls(key \<mapsto> val)) else Thrown)"

text \<open>
  \<^verbatim>\<open>JSON.stringify\<close> and \<^verbatim>\<open>JSON.parse\<close> are functions of the platform and are arguments
  of the model. \<open>stringify\<close> renders a collection as text. \<open>parse\<close> reads a text: it
  throws a syntax error, or it yields a value. The source takes the value for a
  collection without looking at it; the model tells a collection of entries from a
  value that is not an array (an array whose elements are not entries has no counterpart
  in the typed model).
\<close>

datatype parsed = SyntaxError | NotAnArray | Dreams "DreamEntry list"

text \<open>
  The save effect: \<^verbatim>\<open>localStorage.setItem('dream_journal', JSON.stringify(dreams))\<close>, with
  no \<^verbatim>\<open>try\<close> around it.
\<close>

definition saveEffect ::
  "((string \<Rightarrow> string option) \<Rightarrow> string \<Rightarrow> string \<Rightarrow> bool) \<Rightarrow> (DreamEntry list \<Rightarrow> string)
    \<Rightarrow> AppState \<Rightarrow> AppState" where
  "saveEffect accepts stringify st =
     (case setItem accepts ''dream_journal'' (stringify (st_dreams st)) (localStorage st) of
        Returned ls' \<Rightarrow> st\<lparr>localStorage := ls'\<rparr>
      | Thrown \<Rightarrow> st\<lparr>st_crashed := True\<rparr>)"

text \<open>
  A state update \<^verbatim>\<open>setDreams(f)\<close> as it is committed: the next list is \<open>f\<close> of the
  previous one. Every updater of the source builds a new array, so the effect that
  depends on \<^verbatim>\<open>[dreams]\<close> is scheduled. The storage is not touched here.
\<close>

definition setDreams :: "(DreamEntry list \<Rightarrow> DreamEntry list) \<Rightarrow> AppState \<Rightarrow> AppState" where
  "setDreams f st = st\<lparr>st_dreams := f (st_dreams st), st_savePending := True\<rparr>"

text \<open>Running the scheduled save effect, if there is one.\<close>

definition flushEffects ::
  "((string \<Rightarrow> string option) \<Rightarrow> string \<Rightarrow> string \<Rightarrow> bool) \<Rightarrow> (DreamEntry list \<Rightarrow> string)
    \<Rightarrow> AppState \<Rightarrow> AppState" where
  "flushEffects accepts stringify st =
     (if st_savePending st \<and> \<not> st_crashed st
      then saveEffect accepts stringify (st\<lparr>st_savePending := False\<rparr>)
      else st)"

text \<open>
  The load effect reads the key and, when the text is present and not empty
  (\<^verbatim>\<open>if (saved)\<close>), parses it and calls \<^verbatim>\<open>setDreams\<close> with the value; a syntax error is
  caught and logged. The result says what was handed to \<^verbatim>\<open>setDreams\<close>, if anything.
\<close>

datatype loaded = NothingLoaded | LoadedDreams "DreamEntry list" | LoadedNonArray

definition loadEffect :: "(string \<Rightarrow> parsed) \<Rightarrow> (string \<Rightarrow> string option) \<Rightarrow> loaded" where
  "loadEffect parse ls =
     (case ls ''dream_journal'' of
        None \<Rightarrow> NothingLoaded
      | Some saved \<Rightarrow>
          if saved \<noteq> [] then
            (case parse saved of
               SyntaxError \<Rightarrow> NothingLoaded
             | NotAnArray \<Rightarrow> LoadedNonArray
             | Dreams ds \<Rightarrow> LoadedDreams ds)
          else NothingLoaded)"

text \<open>
  Mounting the component: the first render has the initial state; then its effects run
  in the order of the source, the load effect first (it reads the storage and queues its
  state update), the save effect second (it writes the still empty list). The queued
  update, if any, is committed next: a collection becomes the new state and schedules the
  save effect again; a value that is not an array makes the render throw at
  \<^verbatim>\<open>dreams.filter\<close>.
\<close>

definition mount ::
  "((string \<Rightarrow> string option) \<Rightarrow> string \<Rightarrow> string \<Rightarrow> bool) \<Rightarrow> (DreamEntry list \<Rightarrow> string)
    \<Rightarrow> (string \<Rightarrow> parsed) \<Rightarrow> (string \<Rightarrow> string option) \<Rightarrow> AppState" where
  "mount accepts stringify parse ls =
     (let st0 = \<lparr>st_dreams = [], st_isProcessing = False, st_view = Home, localStorage = ls,
                 st_savePending = False, st_crashed = False\<rparr>;
          queued = loadEffect parse (localStorage st0);
          st1 = saveEffect accepts stringify st0
      in if st_crashed st1 then st1
         else
           (case queued of
              NothingLoaded \<Rightarrow> st1
            | LoadedDreams ds \<Rightarrow> setDreams (\<lambda>prev. ds) st1
            | LoadedNonArray \<Rightarrow> st1\<lparr>st_crashed := True\<rparr>))"

text \<open>
  \<^verbatim>\<open>handleRecordingComplete\<close> is asynchronous and runs in three segments, separated by
  its two \<^verbatim>\<open>await\<close>s. The first segment sets the processing flag and starts
  \<^verbatim>\<open>blobToBase64\<close>. If that promise rejects, the handler ends there: no entry is
  inserted and the state stays as the first segment left it. The second segment runs
  when it resolves, with the data URL; it builds \<^verbatim>\<open>newDream\<close> from two readings of the
  clock (\<^verbatim>\<open>Date.now()\<close> is called once for the id and once for the time stamp) and
  prepends it.
\<close>

definition newDream :: "int \<Rightarrow> int \<Rightarrow> string \<Rightarrow> DreamEntry" where
  "newDream idNow tsNow base64Audio =
     \<lparr>dream_id = toString idNow, timestamp = tsNow, audioBase64 = Some base64Audio,
      transcription = ''Processing...'', tags = [], mood = [], lucidityScore = 0,
      isProcessing = True, generatedImage = None\<rparr>"

definition autoTranscribe :: bool where
  "autoTranscribe = True"

definition handleRecordingComplete_start :: "AppState \<Rightarrow> AppState" where
  "handleRecordingComplete_start st = st\<lparr>st_isProcessing := True\<rparr>"

definition handleRecordingComplete_insert :: "string \<Rightarrow> int \<Rightarrow> int \<Rightarrow> AppState \<Rightarrow> AppState" where
  "handleRecordingComplete_insert base64Audio idNow tsNow st =
     setDreams (\<lambda>prev. newDream idNow tsNow base64Audio # prev) st"

text \<open>
  The third segment runs when \<^verbatim>\<open>analyzeDreamAudio\<close> has resolved. The value it resolves
  with is the fallback object or the unchecked result of \<^verbatim>\<open>JSON.parse\<close>, and
  \<^verbatim>\<open>{...d, ...analysis, isProcessing: false}\<close> copies every key that value has over the
  entry. \<open>AnalysisReply\<close> is that value as far as the entry can see it: for each key of
  an entry, the value the reply has under that key, if it has the key (a key
  \<^verbatim>\<open>isProcessing\<close> of the reply is overwritten by the literal that follows the spread;
  values of another type than the field's have no counterpart in the typed model).
  \<open>replyOf\<close> is a reply of the declared type: the four analysis keys and no other.
\<close>

record AnalysisReply =
  reply_id :: "string option"
  reply_timestamp :: "int option"
  reply_audioBase64 :: "string option"
  reply_transcription :: "string option"
  reply_tags :: "string list option"
  reply_mood :: "string option"
  reply_lucidityScore :: "int option"
  reply_generatedImage :: "string option"

definition replyOf :: "DreamAnalysisResult \<Rightarrow> AnalysisReply" where
  "replyOf analysis =
     \<lparr>reply_id = None, reply_timestamp = None, reply_audioBase64 = None,
      reply_transcription = Some (res_transcription analysis),
      reply_tags = Some (res_tags analysis), reply_mood = Some (res_mood analysis),
      reply_lucidityScore = Some (res_lucidityScore analysis),
      reply_generatedImage = None\<rparr>"

definition mergeAnalysis :: "AnalysisReply \<Rightarrow> DreamEntry \<Rightarrow> DreamEntry" where
  "mergeAnalysis analysis d =
     \<lparr>dream_id = (case reply_id analysis of Some v \<Rightarrow> v | None \<Rightarrow> dream_id d),
      timestamp = (case reply_timestamp analysis of Some v \<Rightarrow> v | None \<Rightarrow> timestamp d),
      audioBase64 =
        (case reply_audioBase64 analysis of Some v \<Rightarrow> Some v | None \<Rightarrow> audioBase64 d),
      transcription =
        (case reply_transcription analysis of Some v \<Rightarrow> v | None \<Rightarrow> transcription d),
      tags = (case reply_tags analysis of Some v \<Rightarrow> v | None \<Rightarrow> tags d),
      mood = (case reply_mood analysis of Some v \<Rightarrow> v | None \<Rightarrow> mood d),
      lucidityScore =
        (case reply_lucidityScore analysis of Some v \<Rightarrow> v | None \<Rightarrow> lucidityScore d),
      isProcessing = False,
      generatedImage =
        (case reply_generatedImage analysis of Some v \<Rightarrow> Some v | None \<Rightarrow> generatedImage d)\<rparr>"

text \<open>
  The completion step knows the new entry by \<open>newId\<close>, the id of \<^verbatim>\<open>newDream\<close> in the
  closure of the handler. Its three state updates are committed in one render.
\<close>

definition handleRecordingComplete_finish :: "string \<Rightarrow> AnalysisReply \<Rightarrow> AppState \<Rightarrow> AppState" where
  "handleRecordingComplete_finish newId analysis st =
     (let st' =
        (if autoTranscribe then
           setDreams
             (\<lambda>prev. map (\<lambda>d. if dream_id d = newId then mergeAnalysis analysis d else d) prev) st
         else
           setDreams
             (\<lambda>prev. map (\<lambda>d. if dream_id d = newId
                then d\<lparr>transcription := ''Audio Log (Untranscribed)'', mood := ''Recorded'',
                       isProcessing := False\<rparr>
                else d) prev) st)
      in st'\<lparr>st_isProcessing := False, st_view := ListView\<rparr>)"

text \<open>
  What can happen to the component after it is mounted, one event per run of a handler
  segment on the single UI thread; \<open>EffectsFlushed\<close> is the moment after a commit at
  which React runs the scheduled effects.
\<close>

datatype event =
    RecordingStopped
  | AudioEncodingFailed
  | AudioEncoded string int int
  | AnalysisResolved string AnalysisReply
  | CardUpdate DreamEntry
  | Navigate AppView
  | EffectsFlushed

fun handle :: "event \<Rightarrow> AppState \<Rightarrow> AppState" where
  "handle RecordingStopped st = handleRecordingComplete_start st"
| "handle AudioEncodingFailed st = st"
| "handle (AudioEncoded base64Audio idNow tsNow) st =
     handleRecordingComplete_insert base64Audio idNow tsNow st"
| "handle (AnalysisResolved newId analysis) st =
     handleRecordingComplete_finish newId analysis st"
| "handle (CardUpdate updatedDream) st = setDreams (handleUpdateDream updatedDream) st"
| "handle (Navigate v) st = st\<lparr>st_view := v\<rparr>"
| "handle EffectsFlushed st = st"

text \<open>
  One event: React runs the effects that are still scheduled before it renders again, so
  they run first; then the handler runs and its state updates are committed. Nothing
  runs once the component has crashed.
\<close>

definition step ::
  "((string \<Rightarrow> string option) \<Rightarrow> string \<Rightarrow> string \<Rightarrow> bool) \<Rightarrow> (DreamEntry list \<Rightarrow> string)
    \<Rightarrow> event \<Rightarrow> AppState \<Rightarrow> AppState" where
  "step accepts stringify e st =
     (let st' = flushEffects accepts stringify st
      in if st_crashed st' then st' else handle e st')"

definition run ::
  "((string \<Rightarrow> string option) \<Rightarrow> string \<Rightarrow> string \<Rightarrow> bool) \<Rightarrow> (DreamEntry list \<Rightarrow> string)
    \<Rightarrow> event list \<Rightarrow> AppState \<Rightarrow> AppState" where
  "run accepts stringify evs st = fold (step accepts stringify) evs st"

text \<open>A concrete entry, used where a property is evaluated on an example.\<close>

definition sampleDream :: DreamEntry where
  "sampleDream = \<lparr>dream_id = ''7'', timestamp = 7, audioBase64 = Some ''data:audio/webm;base64,AAAA'',
     transcription = ''I was Flying over water'', tags = [''a'', ''b'', ''a'', ''c'', ''a''],
     mood = ''Calm'', lucidityScore = 6, isProcessing = False, generatedImage = None\<rparr>"

text \<open>
  A stand-in for the date formatting of the platform, used in examples only: the label
  of the day of the epoch that the time stamp falls on, for the first three days.
\<close>

definition sampleFmt :: "int \<Rightarrow> string" where
  "sampleFmt t =
     (if t div 86400000 = 0 then ''Thursday, January 1''
      else if t div 86400000 = 1 then ''Friday, January 2''
      else ''Saturday, January 3'')"

definition dreamA :: DreamEntry where
  "dreamA = sampleDream\<lparr>dream_id := ''90000000'', timestamp := 90000000\<rparr>"

definition dreamB :: DreamEntry where
  "dreamB = sampleDream\<lparr>dream_id := ''5'', timestamp := 5, tags := [''Water'', ''Night sky'']\<rparr>"

definition dreamC :: DreamEntry where
  "dreamC = sampleDream\<lparr>dream_id := ''90000001'', timestamp := 90000001,
     transcription := ''Chased by a wolf''\<rparr>"

definition dreamQuiet :: DreamEntry where
  "dreamQuiet = dreamB\<lparr>transcription := ''A quiet night''\<rparr>"

text \<open>
  Stand-ins for the string functions of the platform, used in examples only; on the
  ASCII texts of the examples they agree with the platform. \<open>sampleLower\<close> maps the
  letters A to Z to a to z; \<open>sampleTrim\<close> strips space, tab, line feed, vertical tab,
  form feed and carriage return at both ends.
\<close>

definition sampleLowerChar :: "char \<Rightarrow> char" where
  "sampleLowerChar c =
     (case map_of (zip ''ABCDEFGHIJKLMNOPQRSTUVWXYZ'' ''abcdefghijklmnopqrstuvwxyz'') c of
        Some l \<Rightarrow> l
      | None \<Rightarrow> c)"

definition sampleLower :: "string \<Rightarrow> string" where
  "sampleLower s = map sampleLowerChar s"

definition isSpace :: "char \<Rightarrow> bool" where
  "isSpace c = (c = CHR '' '' \<or> c = CHR 0x09 \<or> c = CHR 0x0A \<or> c = CHR 0x0B
     \<or> c = CHR 0x0C \<or> c = CHR 0x0D)"

definition sampleTrim :: "string \<Rightarrow> string" where
  "sampleTrim s = rev (dropWhile isSpace (rev (dropWhile isSpace s)))"

text \<open>
  Stand-ins for the JSON functions and for the storage of the platform, used in examples
  only. The text lists the ids; the parser knows the texts that occur in the examples.
  \<open>acceptsAll\<close> is a storage with room for everything, \<open>nearlyFull\<close> one that has room
  for eight characters.
\<close>

definition sampleStringify :: "DreamEntry list \<Rightarrow> string" where
  "sampleStringify ds = ''['' @ join '','' (map dream_id ds) @ '']''"

definition sampleParse :: "string \<Rightarrow> parsed" where
  "sampleParse txt =
     (if txt = ''[]'' then Dreams []
      else if txt = ''[5]'' then Dreams [dreamB]
      else if txt = ''null'' then NotAnArray
      else SyntaxError)"

definition acceptsAll :: "(string \<Rightarrow> string option) \<Rightarrow> string \<Rightarrow> string \<Rightarrow> bool" where
  "acceptsAll ls key val = True"

definition nearlyFull :: "(string \<Rightarrow> string option) \<Rightarrow> string \<Rightarrow> string \<Rightarrow> bool" where
  "nearlyFull ls key val = (length val \<le> 8)"

definition emptyStorage :: "string \<Rightarrow> string option" where
  "emptyStorage = Map.empty"

definition storageWithB :: "string \<Rightarrow> string option" where
  "storageWithB = emptyStorage(''dream_journal'' \<mapsto> ''[5]'')"

definition analysisFlying :: DreamAnalysisResult where
  "analysisFlying = \<lparr>res_transcription = ''I was flying'', res_tags = [''Flying''],
     res_mood = ''Calm'', res_lucidityScore = 7\<rparr>"

definition analysisWolf :: DreamAnalysisResult where
  "analysisWolf = \<lparr>res_transcription = ''Chased by a wolf'', res_tags = [''Wolf''],
     res_mood = ''Tense'', res_lucidityScore = 2\<rparr>"

text \<open>
  Two recordings on a freshly mounted component, the first one analysed, the second one
  inserted at a moment when the clock reads what it read for the id of the first.
\<close>

definition sameClockTwice :: "event list" where
  "sameClockTwice =
     [RecordingStopped, AudioEncoded ''data:audio/webm;base64,AAAA'' 5 5,
      AnalysisResolved ''5'' (replyOf analysisFlying), Navigate Home,
      RecordingStopped, AudioEncoded ''data:audio/webm;base64,BBBB'' 5 6]"

definition twoWithOneId :: AppState where
  "twoWithOneId =
     run acceptsAll sampleStringify sameClockTwice
       (mount acceptsAll sampleStringify sampleParse emptyStorage)"

text \<open>The two entries of that store.\<close>

definition firstRecording :: DreamEntry where
  "firstRecording =
     \<lparr>dream_id = ''5'', timestamp = 5, audioBase64 = Some ''data:audio/webm;base64,AAAA'',
      transcription = ''I was flying'', tags = [''Flying''], mood = ''Calm'', lucidityScore = 7,
      isProcessing = False, generatedImage = None\<rparr>"

definition secondRecording :: DreamEntry where
  "secondRecording = newDream 5 6 ''data:audio/webm;base64,BBBB''"

text \<open>
  The same store after the analysis of the second recording has resolved, its two
  entries, and the older one after the user has added a tag on its card.
\<close>

definition bothAnalysed :: AppState where
  "bothAnalysed =
     step acceptsAll sampleStringify (AnalysisResolved ''5'' (replyOf analysisWolf)) twoWithOneId"

definition newerAnalysed :: DreamEntry where
  "newerAnalysed =
     \<lparr>dream_id = ''5'', timestamp = 6, audioBase64 = Some ''data:audio/webm;base64,BBBB'',
      transcription = ''Chased by a wolf'', tags = [''Wolf''], mood = ''Tense'',
      lucidityScore = 2, isProcessing = False, generatedImage = None\<rparr>"

definition olderAnalysed :: DreamEntry where
  "olderAnalysed = newerAnalysed\<lparr>timestamp := 5,
     audioBase64 := Some ''data:audio/webm;base64,AAAA''\<rparr>"

definition olderTagged :: DreamEntry where
  "olderTagged = olderAnalysed\<lparr>tags := [''Wolf'', ''Sky'']\<rparr>"




section \<open>Predicates used to state the properties\<close>


section \<open>Properties of the tag handlers\<close>

lemma filter_neq_absent: "t \<notin> set ts \<Longrightarrow> filter (\<lambda>x. x \<noteq> t) ts = ts"
  by (induction ts) auto

text \<open>
  Claim C10. A single removal of the label \<open>t\<close> hands over an entry whose tag list is the
  old one with every occurrence of \<open>t\<close> deleted: \<open>t\<close> no longer occurs at all, every
  other label occurs as often as before, the survivors keep their relative order (the new
  list is a subsequence of the old one), and no other field of the entry changes.
\<close>

theorem removeTag_removes_all:
  "\<exists>d'. removeTag True t d = Some d'
      \<and> tags d' = filter (\<lambda>x. x \<noteq> t) (tags d)
      \<and> count_list (tags d') t = 0
      \<and> (\<forall>u. u \<noteq> t \<longrightarrow> count_list (tags d') u = count_list (tags d) u)
      \<and> subseq (tags d') (tags d)
      \<and> d' = d\<lparr>tags := tags d'\<rparr>"
proof -
  let ?d' = "d\<lparr>tags := filter (\<lambda>x. x \<noteq> t) (tags d)\<rparr>"
  have other: "count_list (filter (\<lambda>x. x \<noteq> t) ts) u = count_list ts u" if "u \<noteq> t" for u ts
    using that by (induction ts) auto
  have gone: "count_list (filter (\<lambda>x. x \<noteq> t) ts) t = 0" for ts
    by (induction ts) auto
  have "removeTag True t d = Some ?d'"
    by (simp add: removeTag_def)
  moreover have "subseq (tags ?d') (tags d)"
    by simp
  ultimately show ?thesis
    using other gone by simp
qed

theorem removeTag_removes_all_witness:
  "removeTag True ''a'' sampleDream = Some (sampleDream\<lparr>tags := [''b'', ''c'']\<rparr>)
   \<and> ''b'' \<noteq> ''a''
   \<and> count_list [''b'', ''c''] ''b'' = count_list (tags sampleDream) ''b''"
  using removeTag_removes_all [of "''a''" sampleDream]
  by (simp add: removeTag_def sampleDream_def)

text \<open>
  Claim C9. Removal is idempotent: removing \<open>t\<close> from the entry that a first removal of
  \<open>t\<close> handed over hands over that same entry again, and removing a label that does not
  occur hands the entry over unchanged. Addition does not deduplicate: whatever the
  platform's \<open>trim\<close> is, a submitted text whose trimmed form \<open>trim n\<close> is not empty is
  appended in that form at the end whether or not it already occurs, so a label that
  already occurs then occurs once more and the tag list has a duplicate. A submission
  whose trimmed form is empty is rejected by the guard and nothing is handed over.
\<close>

theorem removeTag_idempotent_addTag_keeps_duplicates:
  "(\<forall>d1. removeTag True t d = Some d1 \<longrightarrow> removeTag True t d1 = Some d1)
   \<and> (t \<notin> set (tags d) \<longrightarrow> removeTag True t d = Some d)
   \<and> (trim n \<noteq> [] \<longrightarrow>
        (\<exists>d2. addTag trim True n d = Some d2
           \<and> tags d2 = tags d @ [trim n]
           \<and> count_list (tags d2) (trim n) = count_list (tags d) (trim n) + 1
           \<and> (trim n \<in> set (tags d) \<longrightarrow> \<not> distinct (tags d2))
           \<and> d2 = d\<lparr>tags := tags d2\<rparr>))
   \<and> (trim n = [] \<longrightarrow> addTag trim True n d = None)"
proof (intro conjI allI impI)
  fix d1 assume "removeTag True t d = Some d1"
  then have "d1 = d\<lparr>tags := filter (\<lambda>x. x \<noteq> t) (tags d)\<rparr>"
    by (simp add: removeTag_def)
  then show "removeTag True t d1 = Some d1"
    by (simp add: removeTag_def)
next
  assume "t \<notin> set (tags d)"
  then show "removeTag True t d = Some d"
    by (simp add: removeTag_def filter_neq_absent)
next
  assume nonblank: "trim n \<noteq> []"
  let ?d2 = "d\<lparr>tags := tags d @ [trim n]\<rparr>"
  have "addTag trim True n d = Some ?d2"
    using nonblank by (simp add: addTag_def)
  then show "\<exists>d2. addTag trim True n d = Some d2
           \<and> tags d2 = tags d @ [trim n]
           \<and> count_list (tags d2) (trim n) = count_list (tags d) (trim n) + 1
           \<and> (trim n \<in> set (tags d) \<longrightarrow> \<not> distinct (tags d2))
           \<and> d2 = d\<lparr>tags := tags d2\<rparr>"
    by simp
next
  assume "trim n = []"
  then show "addTag trim True n d = None"
    by (simp add: addTag_def)
qed

theorem removeTag_idempotent_addTag_keeps_duplicates_witness:
  "removeTag True ''a'' sampleDream = Some (sampleDream\<lparr>tags := [''b'', ''c'']\<rparr>)
   \<and> removeTag True ''a'' (sampleDream\<lparr>tags := [''b'', ''c'']\<rparr>)
        = Some (sampleDream\<lparr>tags := [''b'', ''c'']\<rparr>)
   \<and> ''z'' \<notin> set (tags sampleDream) \<and> removeTag True ''z'' sampleDream = Some sampleDream
   \<and> sampleTrim '' c '' = ''c'' \<and> ''c'' \<in> set (tags sampleDream)
   \<and> addTag sampleTrim True '' c '' sampleDream
        = Some (sampleDream\<lparr>tags := [''a'', ''b'', ''a'', ''c'', ''a'', ''c'']\<rparr>)
   \<and> \<not> distinct [''a'', ''b'', ''a'', ''c'', ''a'', ''c'']
   \<and> sampleTrim ''  '' = [] \<and> addTag sampleTrim True ''  '' sampleDream = None"
  using removeTag_idempotent_addTag_keeps_duplicates [of "''a''" sampleDream sampleTrim "'' c ''"]
    removeTag_idempotent_addTag_keeps_duplicates [of "''z''" sampleDream sampleTrim "''  ''"]
  by (simp add: removeTag_def addTag_def sampleDream_def sampleTrim_def isSpace_def)

section \<open>Properties of update-by-id\<close>

lemma handleUpdateDream_absent:
  "dream_id u \<notin> dream_id ` set prev \<Longrightarrow> handleUpdateDream u prev = prev"
  by (induction prev) (auto simp: handleUpdateDream_def)

lemma handleUpdateDream_nth:
  "i < length prev \<Longrightarrow> handleUpdateDream u prev ! i
     = (if dream_id (prev ! i) = dream_id u then u else prev ! i)"
  by (simp add: handleUpdateDream_def)

lemmas eval_defs = run_def step_def flushEffects_def saveEffect_def setItem_def setDreams_def
  mount_def loadEffect_def handleRecordingComplete_start_def handleRecordingComplete_insert_def
  handleRecordingComplete_finish_def newDream_def mergeAnalysis_def replyOf_def
  autoTranscribe_def toString_def digitChar_def handleUpdateDream_def
  sampleStringify_def sampleParse_def acceptsAll_def nearlyFull_def emptyStorage_def
  storageWithB_def analysisFlying_def analysisWolf_def fallbackAnalysis_def Let_def

text \<open>
  Claim C6. The claim does not hold for every store state. The store of \<open>bothAnalysed\<close>,
  which the component reaches when the clock gives two recordings the same reading,
  holds the entries of the two recordings under one id. The update that the card of the
  older recording hands over when the user adds a tag to it replaces both entries with
  the patched older entry: the entry of the newer recording, which is another entry, is
  replaced as well, and its audio and time stamp are gone from the store.
\<close>

theorem update_replaces_both_entries_of_one_id:
  "st_dreams bothAnalysed = [newerAnalysed, olderAnalysed]
   \<and> dream_id newerAnalysed = dream_id olderAnalysed
   \<and> newerAnalysed \<noteq> olderAnalysed
   \<and> olderTagged = olderAnalysed\<lparr>tags := tags olderAnalysed @ [''Sky'']\<rparr>
   \<and> st_dreams (step acceptsAll sampleStringify (CardUpdate olderTagged) bothAnalysed)
       = [olderTagged, olderTagged]"
  by (simp add: bothAnalysed_def twoWithOneId_def sameClockTwice_def newerAnalysed_def
      olderAnalysed_def olderTagged_def eval_defs)

section \<open>Properties of filtering\<close>

lemma str_includes_sublist: "str_includes s q = sublist q s"
  by (induction s) (auto simp: sublist_Cons_right)

lemma matchesQuery_iff:
  "matchesQuery toLowerCase fmt (toLowerCase searchQuery) d =
     (toLowerCase searchQuery = []
       \<or> sublist (toLowerCase searchQuery) (toLowerCase (transcription d))
       \<or> sublist (toLowerCase searchQuery) (toLowerCase (join '' '' (tags d)))
       \<or> sublist (toLowerCase searchQuery) (toLowerCase (fmt (timestamp d))))"
  by (cases "transcription d = []") (simp_all add: matchesQuery_def str_includes_sublist)

text \<open>
  Claim C1. Whatever the platform's \<open>toLowerCase\<close> and date format \<open>fmt\<close> are, the filter
  keeps, in their order, exactly the entries for which the lower-cased query is empty, or
  occurs as a contiguous substring (\<open>sublist\<close>) of the lower-cased transcription, or of
  the lower-cased tags joined by single spaces, or of the lower-cased formatted long date
  of the entry's time stamp. The lower-cased query is what the code tests for emptiness;
  where lower-casing gives the empty text for the empty query only, as the platform's
  does, this is the test that the query is empty, and the empty query keeps the whole
  list. Matching is insensitive to case: two queries with the same lower-case form keep
  the same entries, and the three texts of an entry are compared in their lower-case
  forms only.
\<close>

theorem filterDreams_keeps_exactly_matches:
  "filterDreams toLowerCase fmt searchQuery ds =
     filter (\<lambda>d. toLowerCase searchQuery = []
        \<or> sublist (toLowerCase searchQuery) (toLowerCase (transcription d))
        \<or> sublist (toLowerCase searchQuery) (toLowerCase (join '' '' (tags d)))
        \<or> sublist (toLowerCase searchQuery) (toLowerCase (fmt (timestamp d)))) ds
   \<and> ((toLowerCase searchQuery = []) = (searchQuery = []) \<longrightarrow>
        filterDreams toLowerCase fmt searchQuery ds =
          filter (\<lambda>d. searchQuery = []
            \<or> sublist (toLowerCase searchQuery) (toLowerCase (transcription d))
            \<or> sublist (toLowerCase searchQuery) (toLowerCase (join '' '' (tags d)))
            \<or> sublist (toLowerCase searchQuery) (toLowerCase (fmt (timestamp d)))) ds)
   \<and> (toLowerCase [] = [] \<longrightarrow> filterDreams toLowerCase fmt [] ds = ds)
   \<and> (toLowerCase searchQuery = toLowerCase otherQuery \<longrightarrow>
        filterDreams toLowerCase fmt searchQuery ds = filterDreams toLowerCase fmt otherQuery ds)"
proof (intro conjI impI)
  show main: "filterDreams toLowerCase fmt searchQuery ds =
     filter (\<lambda>d. toLowerCase searchQuery = []
        \<or> sublist (toLowerCase searchQuery) (toLowerCase (transcription d))
        \<or> sublist (toLowerCase searchQuery) (toLowerCase (join '' '' (tags d)))
        \<or> sublist (toLowerCase searchQuery) (toLowerCase (fmt (timestamp d)))) ds"
    unfolding filterDreams_def Let_def by (rule filter_cong [OF refl]) (rule matchesQuery_iff)
  assume "(toLowerCase searchQuery = []) = (searchQuery = [])"
  then show "filterDreams toLowerCase fmt searchQuery ds =
          filter (\<lambda>d. searchQuery = []
            \<or> sublist (toLowerCase searchQuery) (toLowerCase (transcription d))
            \<or> sublist (toLowerCase searchQuery) (toLowerCase (join '' '' (tags d)))
            \<or> sublist (toLowerCase searchQuery) (toLowerCase (fmt (timestamp d)))) ds"
    using main by simp
next
  assume "toLowerCase [] = []"
  then show "filterDreams toLowerCase fmt [] ds = ds"
    by (simp add: filterDreams_def matchesQuery_def)
next
  assume "toLowerCase searchQuery = toLowerCase otherQuery"
  then show "filterDreams toLowerCase fmt searchQuery ds = filterDreams toLowerCase fmt otherQuery ds"
    by (simp add: filterDreams_def)
qed

theorem filterDreams_keeps_exactly_matches_witness:
  "(sampleLower ''WATER'' = []) = (''WATER'' = [])
   \<and> sampleLower ''WATER'' = ''water''
   \<and> filterDreams sampleLower sampleFmt ''WATER'' [dreamA, dreamQuiet, dreamC] = [dreamA, dreamQuiet]
   \<and> sampleLower ''WATER'' = sampleLower ''water''
   \<and> filterDreams sampleLower sampleFmt ''water'' [dreamA, dreamQuiet, dreamC] = [dreamA, dreamQuiet]
   \<and> filterDreams sampleLower sampleFmt ''FRIDAY'' [dreamA, dreamQuiet, dreamC] = [dreamA, dreamC]
   \<and> filterDreams sampleLower sampleFmt ''zebra'' [dreamA, dreamQuiet, dreamC] = []
   \<and> sampleLower [] = []
   \<and> filterDreams sampleLower sampleFmt [] [dreamA, dreamQuiet, dreamC] = [dreamA, dreamQuiet, dreamC]"
proof -
  have lower: "(sampleLower ''WATER'' = []) = (''WATER'' = []) \<and> sampleLower ''WATER'' = ''water''
      \<and> sampleLower ''WATER'' = sampleLower ''water'' \<and> sampleLower [] = []"
    by (simp add: sampleLower_def sampleLowerChar_def)
  have upper: "filterDreams sampleLower sampleFmt ''WATER'' [dreamA, dreamQuiet, dreamC]
      = [dreamA, dreamQuiet]"
    by code_simp
  have friday: "filterDreams sampleLower sampleFmt ''FRIDAY'' [dreamA, dreamQuiet, dreamC]
      = [dreamA, dreamC]"
    by code_simp
  have zebra: "filterDreams sampleLower sampleFmt ''zebra'' [dreamA, dreamQuiet, dreamC] = []"
    by code_simp
  note inst =
    filterDreams_keeps_exactly_matches [of sampleLower sampleFmt "''WATER''"
      "[dreamA, dreamQuiet, dreamC]" "''water''"]
  note whole = inst [THEN conjunct2, THEN conjunct2, THEN conjunct1]
  note anycase = inst [THEN conjunct2, THEN conjunct2, THEN conjunct2]
  have l1: "(sampleLower ''WATER'' = []) = (''WATER'' = [])"
    and l2: "sampleLower ''WATER'' = ''water''"
    and l3: "sampleLower ''WATER'' = sampleLower ''water''"
    and l4: "sampleLower [] = []"
    using lower by blast+
  have "filterDreams sampleLower sampleFmt ''WATER'' [dreamA, dreamQuiet, dreamC]
      = filterDreams sampleLower sampleFmt ''water'' [dreamA, dreamQuiet, dreamC]"
    using anycase l3 by (rule mp)
  then have same: "filterDreams sampleLower sampleFmt ''water'' [dreamA, dreamQuiet, dreamC]
      = [dreamA, dreamQuiet]"
    using upper by (rule subst)
  have all: "filterDreams sampleLower sampleFmt [] [dreamA, dreamQuiet, dreamC]
      = [dreamA, dreamQuiet, dreamC]"
    using whole l4 by (rule mp)
  show ?thesis
    using l1 l2 upper l3 same friday zebra l4 all by (intro conjI)
qed

section \<open>Properties of grouping\<close>

lemma find_date_None: "find (\<lambda>g. date g = k) gs = None \<longleftrightarrow> k \<notin> set (map date gs)"
  by (induction gs) auto

lemma groupStep_eq:
  "groupStep fmt acc d =
     (if fmt (timestamp d) \<in> set (map date acc) then pushToGroup (fmt (timestamp d)) d acc
      else acc @ [\<lparr>date = fmt (timestamp d), dreams = [d]\<rparr>])"
proof (cases "find (\<lambda>g. date g = fmt (timestamp d)) acc")
  case None
  then show ?thesis
    using find_date_None [of "fmt (timestamp d)" acc] by (simp add: groupStep_def)
next
  case (Some g)
  then show ?thesis
    using find_date_None [of "fmt (timestamp d)" acc] by (simp add: groupStep_def)
qed

lemma pushToGroup_spec:
  "distinct ks \<Longrightarrow>
   pushToGroup k d (map (\<lambda>k'. \<lparr>date = k', dreams = f k'\<rparr>) ks)
     = map (\<lambda>k'. \<lparr>date = k', dreams = (if k' = k then f k' @ [d] else f k')\<rparr>) ks"
  by (induction ks) auto

text \<open>
  The result of the reduce in closed form: one group per label, the labels in the order
  of their first occurrence in the input (\<open>remdups\<close> keeps last occurrences, so it is
  applied to the reversed list), each group holding the entries of its label in input
  order.
\<close>

lemma groupDreams_spec:
  "groupDreams fmt ds =
     map (\<lambda>k. \<lparr>date = k, dreams = filter (\<lambda>d. fmt (timestamp d) = k) ds\<rparr>)
       (rev (remdups (rev (map (\<lambda>d. fmt (timestamp d)) ds))))"
proof (induction ds rule: rev_induct)
  case Nil
  show ?case by (simp add: groupDreams_def)
next
  case (snoc d ds)
  let ?key = "\<lambda>d. fmt (timestamp d)"
  let ?ks = "rev (remdups (rev (map ?key ds)))"
  let ?f = "\<lambda>k. filter (\<lambda>d. ?key d = k) ds"
  have acc: "groupDreams fmt ds = map (\<lambda>k. \<lparr>date = k, dreams = ?f k\<rparr>) ?ks"
    using snoc.IH .
  have dist: "distinct ?ks" by simp
  have dates: "map date (groupDreams fmt ds) = ?ks"
    unfolding acc by (simp add: comp_def)
  have step: "groupDreams fmt (ds @ [d]) = groupStep fmt (groupDreams fmt ds) d"
    by (simp add: groupDreams_def)
  show ?case
  proof (cases "?key d \<in> set (map ?key ds)")
    case True
    then have "groupStep fmt (groupDreams fmt ds) d = pushToGroup (?key d) d (groupDreams fmt ds)"
      using dates by (simp add: groupStep_eq)
    also have "\<dots> = map (\<lambda>k'. \<lparr>date = k', dreams = (if k' = ?key d then ?f k' @ [d] else ?f k')\<rparr>) ?ks"
      unfolding acc using dist by (rule pushToGroup_spec)
    finally show ?thesis
      using True unfolding step by auto
  next
    case False
    then have "groupStep fmt (groupDreams fmt ds) d
        = groupDreams fmt ds @ [\<lparr>date = ?key d, dreams = [d]\<rparr>]"
      using dates by (simp add: groupStep_eq)
    moreover have "filter (\<lambda>x. ?key x = ?key d) ds = []"
      using False by (auto simp: filter_empty_conv image_iff)
    ultimately show ?thesis
      using False unfolding step acc by auto
  qed
qed

lemma mset_concat_groups: "mset (concat (map dreams (groupDreams fmt ds))) = mset ds"
proof (induction ds rule: rev_induct)
  case Nil
  show ?case by (simp add: groupDreams_def)
next
  case (snoc d ds)
  have push: "k \<in> set (map date gs) \<Longrightarrow>
      mset (concat (map dreams (pushToGroup k d gs))) = mset (concat (map dreams gs)) + {#d#}"
    for k gs
    by (induction gs) auto
  show ?case
    using snoc push [of "fmt (timestamp d)" "groupDreams fmt ds"]
    by (simp add: groupDreams_def groupStep_eq)
qed

text \<open>
  Claim C2. For every (filtered) entry list and the groups \<open>gs\<close> made from it: no group is
  empty; the labels of the groups are pairwise different, so no label is split over two
  groups whatever the input order; every input entry lies in exactly one group, the one
  whose label is the formatted date of the entry, and all groups together hold the input
  entries with their multiplicities; each group lists the input entries of its label in
  input order; and the labels appear in the order of their first occurrence in the
  input.
\<close>

theorem groupDreams_partition_first_seen:
  fixes fmt :: "int \<Rightarrow> string" and filtered :: "DreamEntry list"
  defines "gs \<equiv> groupDreams fmt filtered"
  shows "(\<forall>g \<in> set gs. dreams g \<noteq> [])
    \<and> distinct (map date gs)
    \<and> (\<forall>d \<in> set filtered. \<exists>!g. g \<in> set gs \<and> d \<in> set (dreams g))
    \<and> (\<forall>d \<in> set filtered. \<forall>g \<in> set gs.
          d \<in> set (dreams g) \<longleftrightarrow> date g = fmt (timestamp d))
    \<and> mset (concat (map dreams gs)) = mset filtered
    \<and> (\<forall>g \<in> set gs. dreams g = filter (\<lambda>d. fmt (timestamp d) = date g) filtered)
    \<and> map date gs = rev (remdups (rev (map (\<lambda>d. fmt (timestamp d)) filtered)))"
proof -
  let ?key = "\<lambda>d. fmt (timestamp d)"
  let ?ks = "rev (remdups (rev (map ?key filtered)))"
  have spec: "gs = map (\<lambda>k. \<lparr>date = k, dreams = filter (\<lambda>d. ?key d = k) filtered\<rparr>) ?ks"
    unfolding gs_def by (rule groupDreams_spec)
  have dates: "map date gs = ?ks"
    unfolding spec by (simp add: comp_def)
  have dist: "distinct (map date gs)"
    unfolding dates by simp
  have members: "dreams g = filter (\<lambda>d. ?key d = date g) filtered
      \<and> date g \<in> set (map ?key filtered)"
    if "g \<in> set gs" for g
    using that unfolding spec by auto
  have nonempty: "dreams g \<noteq> []" if "g \<in> set gs" for g
    using members [OF that] by (auto simp: filter_empty_conv)
  have inj: "g = g'" if "g \<in> set gs" "g' \<in> set gs" "date g = date g'" for g g'
    using that dist by (meson distinct_map inj_onD)
  have ex: "\<exists>g \<in> set gs. date g = ?key d" if "d \<in> set filtered" for d
  proof -
    have "?key d \<in> set (map date gs)"
      unfolding dates using that by auto
    then show ?thesis by auto
  qed
  have iff: "d \<in> set (dreams g) \<longleftrightarrow> date g = ?key d"
    if "d \<in> set filtered" "g \<in> set gs" for d g
    using members [OF that(2)] that(1) by auto
  have uniq: "\<exists>!g. g \<in> set gs \<and> d \<in> set (dreams g)" if d_in: "d \<in> set filtered" for d
  proof -
    obtain g where g: "g \<in> set gs" "date g = ?key d"
      using ex [OF d_in] by auto
    show ?thesis
    proof (rule ex1I [of _ g])
      show "g \<in> set gs \<and> d \<in> set (dreams g)"
        using g iff [OF d_in g(1)] by simp
    next
      fix g' assume "g' \<in> set gs \<and> d \<in> set (dreams g')"
      then show "g' = g"
        using iff [OF d_in, of g'] g inj by auto
    qed
  qed
  have all: "mset (concat (map dreams gs)) = mset filtered"
    unfolding gs_def by (rule mset_concat_groups)
  show ?thesis
    using nonempty members dist uniq iff dates all by blast
qed

theorem groupDreams_partition_first_seen_witness:
  "groupDreams sampleFmt [dreamA, dreamB, dreamC]
     = [\<lparr>date = ''Friday, January 2'', dreams = [dreamA, dreamC]\<rparr>,
        \<lparr>date = ''Thursday, January 1'', dreams = [dreamB]\<rparr>]
   \<and> dreamC \<in> set [dreamA, dreamB, dreamC]
   \<and> (\<exists>!g. g \<in> set (groupDreams sampleFmt [dreamA, dreamB, dreamC]) \<and> dreamC \<in> set (dreams g))
   \<and> list_all (\<lambda>g. dreams g \<noteq> []) (groupDreams sampleFmt [dreamA, dreamB, dreamC])"
proof -
  have run: "groupDreams sampleFmt [dreamA, dreamB, dreamC]
     = [\<lparr>date = ''Friday, January 2'', dreams = [dreamA, dreamC]\<rparr>,
        \<lparr>date = ''Thursday, January 1'', dreams = [dreamB]\<rparr>]"
    by (simp add: groupDreams_def groupStep_def sampleFmt_def sampleDream_def
        dreamA_def dreamB_def dreamC_def)
  note inst = groupDreams_partition_first_seen [of sampleFmt "[dreamA, dreamB, dreamC]"]
  have mem: "dreamC \<in> set [dreamA, dreamB, dreamC]"
    by simp
  have uniq: "\<exists>!g. g \<in> set (groupDreams sampleFmt [dreamA, dreamB, dreamC])
      \<and> dreamC \<in> set (dreams g)"
    using inst mem by blast
  have nonempty: "list_all (\<lambda>g. dreams g \<noteq> []) (groupDreams sampleFmt [dreamA, dreamB, dreamC])"
    unfolding list_all_iff using inst by blast
  show ?thesis
    using run mem uniq nonempty by blast
qed

section \<open>Properties of analyzeDreamAudio\<close>

text \<open>
  Claim C5. For every behaviour of the request and of the parser and for every input,
  \<open>analyzeDreamAudio\<close> returns a value and never throws: the value is the parsed result
  of a non-empty response text, or else exactly the fallback record. A failed request,
  an undefined or empty response text and an unparseable text each yield the fallback
  record.
\<close>

theorem analyzeDreamAudio_returns_result_or_fallback:
  "analyzeDreamAudio gen parse a m \<noteq> Thrown
   \<and> (\<exists>r. analyzeDreamAudio gen parse a m = Returned r
        \<and> (r = fallbackAnalysis
            \<or> (\<exists>t. t \<noteq> [] \<and> gen (m, cleanBase64 a) = Returned (Some t)
                  \<and> parse t = Returned r)))
   \<and> (gen (m, cleanBase64 a) = Thrown
        \<longrightarrow> analyzeDreamAudio gen parse a m = Returned fallbackAnalysis)
   \<and> (gen (m, cleanBase64 a) = Returned None
        \<longrightarrow> analyzeDreamAudio gen parse a m = Returned fallbackAnalysis)
   \<and> (gen (m, cleanBase64 a) = Returned (Some [])
        \<longrightarrow> analyzeDreamAudio gen parse a m = Returned fallbackAnalysis)
   \<and> (\<forall>t. gen (m, cleanBase64 a) = Returned (Some t) \<and> parse t = Thrown
        \<longrightarrow> analyzeDreamAudio gen parse a m = Returned fallbackAnalysis)
   \<and> (\<forall>t r. t \<noteq> [] \<and> gen (m, cleanBase64 a) = Returned (Some t) \<and> parse t = Returned r
        \<longrightarrow> analyzeDreamAudio gen parse a m = Returned r)
   \<and> fallbackAnalysis = \<lparr>res_transcription = ''Analysis failed. Please try again later.'',
        res_tags = [''Error''], res_mood = ''Unknown'', res_lucidityScore = 0\<rparr>"
  by (auto simp: analyzeDreamAudio_def analyzeDreamAudio_try_def fallbackAnalysis_def
      split: completion.splits option.splits)

theorem analyzeDreamAudio_returns_result_or_fallback_witness:
  "analyzeDreamAudio (\<lambda>req. Thrown) (\<lambda>t. Thrown) ''data:audio/webm;base64,AAAA'' ''audio/webm''
     = Returned fallbackAnalysis
   \<and> analyzeDreamAudio (\<lambda>req. Returned None) (\<lambda>t. Thrown) ''data:audio/webm;base64,AAAA''
        ''audio/webm'' = Returned fallbackAnalysis
   \<and> analyzeDreamAudio (\<lambda>req. Returned (Some [])) (\<lambda>t. Thrown) ''data:audio/webm;base64,AAAA''
        ''audio/webm'' = Returned fallbackAnalysis
   \<and> analyzeDreamAudio (\<lambda>req. Returned (Some ''not json'')) (\<lambda>t. Thrown)
        ''data:audio/webm;base64,AAAA'' ''audio/webm'' = Returned fallbackAnalysis
   \<and> analyzeDreamAudio (\<lambda>req. if req = (''audio/webm'', ''AAAA'') then Returned (Some ''{}'') else Thrown)
        (\<lambda>t. Returned (fallbackAnalysis\<lparr>res_mood := ''Calm''\<rparr>))
        ''data:audio/webm;base64,AAAA'' ''audio/webm''
       = Returned (fallbackAnalysis\<lparr>res_mood := ''Calm''\<rparr>)"
  using
    analyzeDreamAudio_returns_result_or_fallback [of "\<lambda>req. Thrown" "\<lambda>t. Thrown"
      "''data:audio/webm;base64,AAAA''" "''audio/webm''"]
    analyzeDreamAudio_returns_result_or_fallback [of "\<lambda>req. Returned None" "\<lambda>t. Thrown"
      "''data:audio/webm;base64,AAAA''" "''audio/webm''"]
    analyzeDreamAudio_returns_result_or_fallback [of "\<lambda>req. Returned (Some [])" "\<lambda>t. Thrown"
      "''data:audio/webm;base64,AAAA''" "''audio/webm''"]
    analyzeDreamAudio_returns_result_or_fallback [of "\<lambda>req. Returned (Some ''not json'')"
      "\<lambda>t. Thrown" "''data:audio/webm;base64,AAAA''" "''audio/webm''"]
  by (simp add: analyzeDreamAudio_def analyzeDreamAudio_try_def cleanBase64_def isWordChar_def)

section \<open>Properties of persistence\<close>

lemma mount_dreams:
  "st_dreams (mount accepts stringify parse ls) =
     (case loadEffect parse ls of
        LoadedDreams ds \<Rightarrow> if accepts ls ''dream_journal'' (stringify []) then ds else []
      | _ \<Rightarrow> [])"
  by (simp add: mount_def Let_def saveEffect_def setItem_def setDreams_def split: loaded.splits)

lemma mount_unparseable:
  "ls ''dream_journal'' = Some txt \<Longrightarrow> parse txt = SyntaxError
    \<Longrightarrow> st_dreams (mount accepts stringify parse ls) = []"
  by (simp add: mount_dreams loadEffect_def)

lemma refused_write_keeps_storage:
  "st_savePending st \<Longrightarrow> \<not> st_crashed st
    \<Longrightarrow> \<not> accepts (localStorage st) ''dream_journal'' (stringify (st_dreams st))
    \<Longrightarrow> st_crashed (flushEffects accepts stringify st)
      \<and> localStorage (flushEffects accepts stringify st) = localStorage st
      \<and> st_dreams (flushEffects accepts stringify st) = st_dreams st"
  by (simp add: flushEffects_def saveEffect_def setItem_def)











section \<open>Properties of the recording handler and of ids\<close>

text \<open>
  Claim C4. The claim fails when the clock reading of a recording gives an id that an
  entry of the store already has. After the events \<open>sameClockTwice\<close> on a freshly mounted
  component the store holds the second recording, pending, in front of the first one,
  which is analysed; both have the id \<open>5\<close>. When the analysis of the second recording
  resolves, the completion step merges it into both entries: the second recording is no
  longer pending, and the first recording, which is another entry, has lost its own
  transcription to that of the second.
\<close>

theorem completion_modifies_older_entry_with_same_id:
  "st_dreams twoWithOneId = [secondRecording, firstRecording]
   \<and> isProcessing secondRecording
   \<and> map transcription (st_dreams twoWithOneId) = [''Processing...'', ''I was flying'']
   \<and> st_dreams (step acceptsAll sampleStringify (AnalysisResolved ''5'' (replyOf analysisWolf))
        twoWithOneId)
       = [mergeAnalysis (replyOf analysisWolf) secondRecording,
          mergeAnalysis (replyOf analysisWolf) firstRecording]
   \<and> map transcription (st_dreams (step acceptsAll sampleStringify
        (AnalysisResolved ''5'' (replyOf analysisWolf)) twoWithOneId))
       = [''Chased by a wolf'', ''Chased by a wolf'']
   \<and> mergeAnalysis (replyOf analysisWolf) firstRecording \<noteq> firstRecording"
  by (simp add: twoWithOneId_def sameClockTwice_def firstRecording_def secondRecording_def
      eval_defs)

text \<open>
  Claim C8. The claim fails on a freshly mounted component when two recordings are
  inserted at the same clock reading: the id of each is the decimal numeral of the
  reading, nothing compares it with the ids in the store, and the store then holds two
  entries with the id \<open>5\<close>.
\<close>

theorem same_clock_reading_gives_duplicate_id:
  "newDream 5 5 ''data:audio/webm;base64,AAAA'' \<noteq> newDream 5 6 ''data:audio/webm;base64,BBBB''
   \<and> dream_id (newDream 5 5 ''data:audio/webm;base64,AAAA'') = ''5''
   \<and> dream_id (newDream 5 6 ''data:audio/webm;base64,BBBB'') = ''5''
   \<and> map dream_id (st_dreams twoWithOneId) = [''5'', ''5'']
   \<and> \<not> distinct (map dream_id (st_dreams twoWithOneId))"
  by (simp add: twoWithOneId_def sameClockTwice_def eval_defs)

end
